theory Spec2Isabelle
  imports Main
begin

section \<open>The host runtime: configuration descriptors\<close>

text \<open>
  The library (\<^verbatim>\<open>src/index.ts\<close>) is a set of one-line compositions of the
  \<^verbatim>\<open>Config\<close> primitives of the \<^verbatim>\<open>effect\<close> package. That package is an external
  collaborator and none of its code is part of the repository, so the primitives are modelled
  here, each under a comment that says where its behaviour is taken from. The functions of
  \<^verbatim>\<open>src/index.ts\<close> themselves are translated from their source text in the next
  section.
\<close>

text \<open>The process's environment variable table: a variable is unset or holds a raw string.\<close>

type_synonym environment = "string \<rightharpoonup> string"

text \<open>
  Modelled from the spec: the structured error type of the host (\<^verbatim>\<open>ConfigError\<close>),
  which is not defined in the repository. Section 7 of the specification names two kinds,
  Missing (a variable was not present; it refers to the variable) and InvalidData (a variable
  was present but failed conversion or validation; it carries a message); section 2 says that
  a composite descriptor yields "the first/aggregated failure", which is the third constructor.
  The source builds \<^verbatim>\<open>ConfigError.InvalidData(path, message)\<close> with these two
  arguments.
\<close>

datatype config_error =
    MissingData "string list" string
  | InvalidData "string list" string
  | And config_error config_error

text \<open>
  A descriptor of a value of type \<^typ>\<open>'a\<close> is identified with what evaluating it against an
  environment snapshot gives: a failure (\<^verbatim>\<open>Either.left\<close>) or a value
  (\<^verbatim>\<open>Either.right\<close>). Building a descriptor never looks at an environment; only applying
  it does.
\<close>

type_synonym 'a config = "environment \<Rightarrow> config_error + 'a"

text \<open>
  Modelled from the spec: reading one named variable and converting its raw text
  (section 6: the name is looked up directly and exactly; section 4.1: a required descriptor
  fails when the variable is unset). The message of the Missing failure is the host's and no
  theorem below depends on it.
\<close>

definition Config_primitive :: "(string \<Rightarrow> config_error + 'a) \<Rightarrow> string \<Rightarrow> 'a config" where
  "Config_primitive parse name env =
     (case env name of
        None \<Rightarrow> Inl (MissingData [name] (''Expected '' @ name @ '' to exist in the process context''))
      | Some text \<Rightarrow> parse text)"

text \<open>Modelled from the spec: \<^verbatim>\<open>Config.string\<close>, "raw string as-is".\<close>

definition Config_string :: "string \<Rightarrow> string config" where
  "Config_string name = Config_primitive Inr name"

text \<open>
  Modelled from the spec: \<^verbatim>\<open>Config.number\<close>. The numeric format is "delegated to the
  host runtime's general-purpose string/number parsing" (section 4.1), so the parser of the
  JavaScript runtime is the parameter \<open>parseNumber\<close>; \<open>None\<close> stands for "not parseable as
  a number".
\<close>

definition Config_number :: "(string \<Rightarrow> 'n option) \<Rightarrow> string \<Rightarrow> 'n config" where
  "Config_number parseNumber name =
     Config_primitive
       (\<lambda>text. case parseNumber text of
                  None \<Rightarrow> Inl (InvalidData [] (''Expected a number value but received '' @ text))
                | Some n \<Rightarrow> Inr n)
       name"

text \<open>
  Modelled from the spec: \<^verbatim>\<open>Config.boolean\<close>. The vocabulary is the one of section 4.1
  and of the doc comment of \<^verbatim>\<open>Env.boolean\<close> in the source: "true", "yes", "on", "1" are
  truthy, "false", "no", "off", "0" are falsy, any other string is an error.
\<close>

definition Config_boolean :: "string \<Rightarrow> bool config" where
  "Config_boolean name =
     Config_primitive
       (\<lambda>text. if List.member [''true'', ''yes'', ''on'', ''1''] text then Inr True
               else if List.member [''false'', ''no'', ''off'', ''0''] text then Inr False
               else Inl (InvalidData [] (''Expected a boolean value but received '' @ text)))
       name"

text \<open>
  Modelled from the spec: the host's \<^verbatim>\<open>Redacted\<close> wrapper (glossary: "a value wrapped
  to suppress accidental display while remaining explicitly retrievable"). The explicit
  accessor is \<^verbatim>\<open>Redacted.value\<close>, named in the doc comment of \<^verbatim>\<open>Env.redacted\<close>.
  How the host displays a wrapped value is described by no source and is not modelled.
\<close>

datatype redacted = Redacted_make (Redacted_value: string)

text \<open>Modelled from the spec: \<^verbatim>\<open>Config.redacted\<close>, the raw string, wrapped.\<close>

definition Config_redacted :: "string \<Rightarrow> redacted config" where
  "Config_redacted name = Config_primitive (\<lambda>text. Inr (Redacted_make text)) name"

text \<open>
  Modelled from the spec: a default replaces a failure that is only about missing data
  (section 4.1: with a default, "unset is not an error", while a variable that is set but not
  parseable still fails).
\<close>

fun isMissingDataOnly :: "config_error \<Rightarrow> bool" where
  "isMissingDataOnly (MissingData path message) = True"
| "isMissingDataOnly (InvalidData path message) = False"
| "isMissingDataOnly (And left right) = (isMissingDataOnly left \<and> isMissingDataOnly right)"

definition Config_withDefault :: "'a \<Rightarrow> 'a config \<Rightarrow> 'a config" where
  "Config_withDefault def self env =
     (case self env of
        Inl e \<Rightarrow> if isMissingDataOnly e then Inr def else Inl e
      | Inr a \<Rightarrow> Inr a)"

text \<open>Modelled from the spec: \<^verbatim>\<open>Config.option\<close>, "present if set, absent if unset".\<close>

definition Config_option :: "'a config \<Rightarrow> 'a option config" where
  "Config_option self env =
     (case self env of
        Inl e \<Rightarrow> if isMissingDataOnly e then Inr None else Inl e
      | Inr a \<Rightarrow> Inr (Some a))"

text \<open>
  Modelled from the spec: \<^verbatim>\<open>Config.mapOrFail\<close>, the "transform/validate" operation of
  a descriptor: the function is applied to the value the descriptor produced, and a failure of
  the descriptor is passed on.
\<close>

definition Config_mapOrFail :: "('a \<Rightarrow> config_error + 'b) \<Rightarrow> 'a config \<Rightarrow> 'b config" where
  "Config_mapOrFail f self env =
     (case self env of
        Inl e \<Rightarrow> Inl e
      | Inr a \<Rightarrow> f a)"

definition Config_map :: "('a \<Rightarrow> 'b) \<Rightarrow> 'a config \<Rightarrow> 'b config" where
  "Config_map f self = Config_mapOrFail (\<lambda>a. Inr (f a)) self"

text \<open>JavaScript's \<^verbatim>\<open>Array.prototype.join\<close> on an array of strings.\<close>

fun join :: "string \<Rightarrow> string list \<Rightarrow> string" where
  "join sep [] = []"
| "join sep [x] = x"
| "join sep (x # y # ys) = x @ sep @ join sep (y # ys)"

section \<open>The combinators of \<^verbatim>\<open>src/index.ts\<close>\<close>


definition Env_number :: "(string \<Rightarrow> 'n option) \<Rightarrow> string \<Rightarrow> 'n config" where
  "Env_number parseNumber name = Config_number parseNumber name"

definition Env_boolean :: "string \<Rightarrow> bool config" where
  "Env_boolean name = Config_boolean name"

definition Env_redacted :: "string \<Rightarrow> redacted config" where
  "Env_redacted name = Config_redacted name"

definition stringOr :: "string \<Rightarrow> string \<Rightarrow> string config" where
  "stringOr name defaultValue = Config_withDefault defaultValue (Config_string name)"


definition booleanOr :: "string \<Rightarrow> bool \<Rightarrow> bool config" where
  "booleanOr name defaultValue = Config_withDefault defaultValue (Config_boolean name)"

definition optionalString :: "string \<Rightarrow> string option config" where
  "optionalString name = Config_option (Config_string name)"

definition optionalNumber :: "(string \<Rightarrow> 'n option) \<Rightarrow> string \<Rightarrow> 'n option config" where
  "optionalNumber parseNumber name = Config_option (Config_number parseNumber name)"

text \<open>
  The check shared by \<^verbatim>\<open>literal\<close> and \<^verbatim>\<open>literalOr\<close> (the source writes the
  same arrow function in both): \<^verbatim>\<open>values.includes(s)\<close>, and otherwise
  \<^verbatim>\<open>InvalidData([], `Expected one of: ${values.join(", ")}`)\<close>.
\<close>

definition oneOf :: "string list \<Rightarrow> string \<Rightarrow> config_error + string" where
  "oneOf values s =
     (if List.member values s then Inr s
      else Inl (InvalidData [] (''Expected one of: '' @ join '', '' values)))"

text \<open>
  The rest parameter \<^verbatim>\<open>...values: readonly [T, ...T[]]\<close> has at least one element: it
  is the first allowed value \<open>v\<close> and the list \<open>vs\<close> of the others.
\<close>

definition literal :: "string \<Rightarrow> string \<Rightarrow> string list \<Rightarrow> string config" where
  "literal name v vs = Config_mapOrFail (oneOf (v # vs)) (Config_string name)"

text \<open>
  \<^verbatim>\<open>Config.string(name).pipe(Config.withDefault(defaultValue), Config.mapOrFail(...))\<close>:
  \<^verbatim>\<open>pipe\<close> applies its arguments from left to right, so the check is applied to the
  descriptor that already has the default.
\<close>

definition literalOr :: "string \<Rightarrow> string \<Rightarrow> string \<Rightarrow> string list \<Rightarrow> string config" where
  "literalOr name defaultValue v vs =
     Config_mapOrFail (oneOf (v # vs)) (Config_withDefault defaultValue (Config_string name))"

text \<open>
  \<^verbatim>\<open>new URL(s)\<close> is the URL parser of the JavaScript runtime; the parameter
  \<open>parsesAsURL\<close> says for which strings the constructor returns instead of throwing.
\<close>

definition url :: "(string \<Rightarrow> bool) \<Rightarrow> string \<Rightarrow> string config" where
  "url parsesAsURL name =
     Config_mapOrFail
       (\<lambda>s. if parsesAsURL s then Inr s else Inl (InvalidData [] ''Invalid URL''))
       (Config_string name)"

section \<open>Kinds of failure\<close>

text \<open>The result is a Missing failure that refers to the variable \<open>name\<close>.\<close>

definition failsMissing :: "string \<Rightarrow> config_error + 'a \<Rightarrow> bool" where
  "failsMissing name r =
     (case r of Inl (MissingData path message) \<Rightarrow> List.member path name | _ \<Rightarrow> False)"

text \<open>The result is an InvalidData failure.\<close>

definition failsInvalidData :: "config_error + 'a \<Rightarrow> bool" where
  "failsInvalidData r = (case r of Inl (InvalidData path message) \<Rightarrow> True | _ \<Rightarrow> False)"


section \<open>The aggregator \<^verbatim>\<open>makeEnv\<close>\<close>

text \<open>
  The fields of a shape are descriptors of \<^verbatim>\<open>unknown\<close>
  (\<^verbatim>\<open>Record<string, Config.Config<unknown>>\<close>): the values the combinators above
  produce, in one type. A \<^verbatim>\<open>Config<string>\<close> is used as a \<^verbatim>\<open>Config<unknown>\<close>
  through \<^term>\<open>Config_map\<close> with the matching constructor. The type of numbers is the
  parameter \<^typ>\<open>'n\<close>.
\<close>

datatype 'n unknown =
    StringValue string
  | NumberValue 'n
  | BooleanValue bool
  | RedactedValue redacted
  | OptionValue "'n unknown option"

text \<open>
  Modelled from the spec: the host's primitive that combines two descriptors (section 4.2):
  both are evaluated, independently of each other; the combination fails if either fails, and
  with both failures when both fail ("the first/aggregated failure").
\<close>

definition Config_zipWith :: "'b config \<Rightarrow> ('a \<Rightarrow> 'b \<Rightarrow> 'c) \<Rightarrow> 'a config \<Rightarrow> 'c config" where
  "Config_zipWith that f self env =
     (case self env of
        Inl l \<Rightarrow> (case that env of Inl r \<Rightarrow> Inl (And l r) | Inr b \<Rightarrow> Inl l)
      | Inr a \<Rightarrow> (case that env of Inl r \<Rightarrow> Inl r | Inr b \<Rightarrow> Inr (f a b)))"

definition addField :: "(string \<rightharpoonup> 'a) config \<Rightarrow> string \<times> 'a config \<Rightarrow> (string \<rightharpoonup> 'a) config" where
  "addField result entry =
     Config_zipWith (snd entry) (\<lambda>record val. record(fst entry \<mapsto> val)) result"

text \<open>
  The descriptor of a shape that has a first entry and the list of the other entries: the
  record with the first field, to which the other fields are added one after the other.
\<close>

definition combineFields ::
  "string \<times> 'a config \<Rightarrow> (string \<times> 'a config) list \<Rightarrow> (string \<rightharpoonup> 'a) config" where
  "combineFields entry rest =
     foldl addField (Config_map (\<lambda>val. [fst entry \<mapsto> val]) (snd entry)) rest"

text \<open>
  An exception thrown by a call while it runs, as opposed to the failure value that evaluating
  a descriptor gives.
\<close>

datatype thrown = Thrown

text \<open>
  Modelled from the spec: \<^verbatim>\<open>Config.all\<close> on a record of descriptors (section 4.2):
  "evaluates every field descriptor independently and assembles a record keyed by field name
  with each field's resolved typed value. If any field fails, the composite descriptor fails."
  The shape is the list of its entries (field name, descriptor), as
  \<^verbatim>\<open>Object.entries(shape)\<close> gives them, and the result is a record keyed by field name.

  The equation for the shape without fields is not taken from the specification, which
  does not speak of that shape. It records the behaviour of the \<^verbatim>\<open>effect\<close> package: its
  record combinator starts from the first of the entries, and for an object without entries
  the call \<^verbatim>\<open>Config.all({})\<close> throws while the descriptor is being built, before any
  environment is looked at.
\<close>

fun Config_all :: "(string \<times> 'a config) list \<Rightarrow> thrown + (string \<rightharpoonup> 'a) config" where
  "Config_all [] = Inl Thrown"
| "Config_all (entry # rest) = Inr (combineFields entry rest)"

text \<open>
  The service handle: the tag made by \<^verbatim>\<open>Context.GenericTag(id)\<close>, of which the model
  keeps the identifier, with the two properties that \<^verbatim>\<open>Object.assign\<close> adds to it.
  \<^verbatim>\<open>Default\<close> is \<^verbatim>\<open>Layer.effect(tag, config)\<close>, the deferred evaluation of
  \<^verbatim>\<open>config\<close>; how the host's dependency injection binds the result to the tag is not
  part of the model.
\<close>

record 'a EnvService =
  key :: string
  config :: "(string \<rightharpoonup> 'a) config"
  Default :: "(string \<rightharpoonup> 'a) config"

text \<open>
  \<^verbatim>\<open>makeEnv\<close> calls \<^verbatim>\<open>Config.all(shape)\<close> first, with nothing around the call: an
  exception of that call is an exception of \<^verbatim>\<open>makeEnv\<close>, and no handle is returned.
\<close>

definition makeEnv :: "string \<Rightarrow> (string \<times> 'a config) list \<Rightarrow> thrown + 'a EnvService" where
  "makeEnv ident shape =
     (case Config_all shape of
        Inl exception \<Rightarrow> Inl exception
      | Inr composite \<Rightarrow> Inr \<lparr> key = ident, config = composite, Default = composite \<rparr>)"


section \<open>Lemmas on the primitives\<close>

lemma Config_string_set: "env name = Some s \<Longrightarrow> Config_string name env = Inr s"
  by (simp add: Config_string_def Config_primitive_def)

lemma Config_string_unset:
  "env name = None \<Longrightarrow>
   Config_string name env =
     Inl (MissingData [name] (''Expected '' @ name @ '' to exist in the process context''))"
  by (simp add: Config_string_def Config_primitive_def)




















section \<open>The claims\<close>

text \<open>
  Claim C1, as the code has it. When the variable is unset, \<^verbatim>\<open>literalOr\<close> substitutes
  the default and then checks it against the allowed values like any other value: the result
  is the default when the default is one of the allowed values, and an InvalidData failure
  when it is not.
\<close>

theorem literalOr_unset:
  "env name = None \<Longrightarrow>
   (defaultValue \<in> set (v # vs) \<longrightarrow> literalOr name defaultValue v vs env = Inr defaultValue) \<and>
   (defaultValue \<notin> set (v # vs) \<longrightarrow> failsInvalidData (literalOr name defaultValue v vs env))"
  by (simp add: literalOr_def Config_mapOrFail_def Config_withDefault_def Config_string_unset
      oneOf_def failsInvalidData_def del: set_simps)

theorem literalOr_unset_witness:
  "Map.empty ''LOG_LEVEL'' = None \<and>
   literalOr ''LOG_LEVEL'' ''info'' ''debug'' [''info''] Map.empty = Inr ''info'' \<and>
   failsInvalidData (literalOr ''LOG_LEVEL'' ''trace'' ''debug'' [''info''] Map.empty)"
  using literalOr_unset [of Map.empty "''LOG_LEVEL''" "''info''" "''debug''" "[''info'']"]
    literalOr_unset [of Map.empty "''LOG_LEVEL''" "''trace''" "''debug''" "[''info'']"]
  by simp

text \<open>
  Claim C1 as the specification words it (an unset variable yields the default, even when the
  default is not one of the allowed values) fails: with \<^verbatim>\<open>LOG_LEVEL\<close> unset, the default
  "verbose" and the allowed values "debug" and "info", the result is not the default but the
  InvalidData failure of the check.
\<close>

theorem literalOr_default_counterexample:
  "literalOr ''LOG_LEVEL'' ''verbose'' ''debug'' [''info''] Map.empty \<noteq> Inr ''verbose'' \<and>
   literalOr ''LOG_LEVEL'' ''verbose'' ''debug'' [''info''] Map.empty =
     Inl (InvalidData [] ''Expected one of: debug, info'')"
  by (simp add: literalOr_def Config_mapOrFail_def Config_withDefault_def Config_string_unset
      oneOf_def)




text \<open>
  Claim C3. When the variable is set, \<^verbatim>\<open>boolean\<close> yields true exactly when the raw
  value is one of "true", "yes", "on", "1", yields false exactly when it is one of "false",
  "no", "off", "0", and fails with InvalidData for every other string.
\<close>

theorem boolean_vocabulary:
  "env name = Some raw \<Longrightarrow>
   (Env_boolean name env = Inr True \<longleftrightarrow> raw \<in> {''true'', ''yes'', ''on'', ''1''}) \<and>
   (Env_boolean name env = Inr False \<longleftrightarrow> raw \<in> {''false'', ''no'', ''off'', ''0''}) \<and>
   (raw \<notin> {''true'', ''yes'', ''on'', ''1'', ''false'', ''no'', ''off'', ''0''} \<longrightarrow>
      failsInvalidData (Env_boolean name env))"
  by (auto simp add: Env_boolean_def Config_boolean_def Config_primitive_def failsInvalidData_def)

theorem boolean_vocabulary_witness:
  "Env_boolean ''DEBUG'' [''DEBUG'' \<mapsto> ''on''] = Inr True \<and>
   Env_boolean ''DEBUG'' [''DEBUG'' \<mapsto> ''0''] = Inr False \<and>
   failsInvalidData (Env_boolean ''DEBUG'' [''DEBUG'' \<mapsto> ''TRUE''])"
  using boolean_vocabulary [of "[''DEBUG'' \<mapsto> ''on'']" "''DEBUG''" "''on''"]
    boolean_vocabulary [of "[''DEBUG'' \<mapsto> ''0'']" "''DEBUG''" "''0''"]
    boolean_vocabulary [of "[''DEBUG'' \<mapsto> ''TRUE'']" "''DEBUG''" "''TRUE''"]
  by simp

text \<open>
  Claim C4. \<^verbatim>\<open>literal\<close> succeeds with the raw string exactly when the raw string is equal
  to one of the allowed values, fails with InvalidData for every other set value (a value that
  differs from an allowed one in case or by surrounding blanks is such a value), and fails with
  Missing when the variable is unset.
\<close>

theorem literal_exact:
  "(env name = Some s \<longrightarrow>
      (literal name v vs env = Inr s \<longleftrightarrow> s \<in> set (v # vs)) \<and>
      (s \<notin> set (v # vs) \<longrightarrow> failsInvalidData (literal name v vs env))) \<and>
   (env name = None \<longrightarrow> failsMissing name (literal name v vs env))"
  by (simp add: literal_def Config_mapOrFail_def Config_string_unset Config_string_set
      oneOf_def failsInvalidData_def failsMissing_def)

theorem literal_exact_witness:
  "literal ''NODE_ENV'' ''development'' [''production''] [''NODE_ENV'' \<mapsto> ''production'']
     = Inr ''production'' \<and>
   failsInvalidData
     (literal ''NODE_ENV'' ''development'' [''production''] [''NODE_ENV'' \<mapsto> ''Production'']) \<and>
   failsInvalidData
     (literal ''NODE_ENV'' ''development'' [''production''] [''NODE_ENV'' \<mapsto> ''production '']) \<and>
   failsMissing ''NODE_ENV'' (literal ''NODE_ENV'' ''development'' [''production''] Map.empty)"
  using literal_exact [of "[''NODE_ENV'' \<mapsto> ''production'']" "''NODE_ENV''" "''production''"
      "''development''" "[''production'']"]
    literal_exact [of "[''NODE_ENV'' \<mapsto> ''Production'']" "''NODE_ENV''" "''Production''"
      "''development''" "[''production'']"]
    literal_exact [of "[''NODE_ENV'' \<mapsto> ''production '']" "''NODE_ENV''" "''production ''"
      "''development''" "[''production'']"]
    literal_exact [of Map.empty "''NODE_ENV''" "''x''" "''development''" "[''production'']"]
  by simp

text \<open>
  Claim C5. \<^verbatim>\<open>url\<close> succeeds with the raw string, unchanged, exactly when the raw string
  parses as a URL, fails with InvalidData when the variable is set to a string that does not
  parse, and fails with Missing when the variable is unset. The URL parser is any predicate.
\<close>

theorem url_validates:
  "(env name = Some s \<longrightarrow>
      (url parsesAsURL name env = Inr s \<longleftrightarrow> parsesAsURL s) \<and>
      (\<not> parsesAsURL s \<longrightarrow> failsInvalidData (url parsesAsURL name env))) \<and>
   (env name = None \<longrightarrow> failsMissing name (url parsesAsURL name env))"
  by (simp add: url_def Config_mapOrFail_def Config_string_unset Config_string_set
      failsInvalidData_def failsMissing_def)

theorem url_validates_witness:
  "url (\<lambda>s. s = ''https://example.com'') ''API_BASE_URL''
       [''API_BASE_URL'' \<mapsto> ''https://example.com'']
     = Inr ''https://example.com'' \<and>
   failsInvalidData
     (url (\<lambda>s. s = ''https://example.com'') ''API_BASE_URL'' [''API_BASE_URL'' \<mapsto> ''not a url'']) \<and>
   failsMissing ''API_BASE_URL'' (url (\<lambda>s. s = ''https://example.com'') ''API_BASE_URL'' Map.empty)"
  using url_validates [of "[''API_BASE_URL'' \<mapsto> ''https://example.com'']" "''API_BASE_URL''"
      "''https://example.com''" "\<lambda>s. s = ''https://example.com''"]
    url_validates [of "[''API_BASE_URL'' \<mapsto> ''not a url'']" "''API_BASE_URL''" "''not a url''"
      "\<lambda>s. s = ''https://example.com''"]
    url_validates [of Map.empty "''API_BASE_URL''" "''x''" "\<lambda>s. s = ''https://example.com''"]
  by simp

text \<open>
  Claim C6. \<^verbatim>\<open>stringOr\<close> never fails: it yields exactly the default when the variable is
  unset, and the raw string, with no transformation, when the variable is set.
\<close>

theorem stringOr_never_fails:
  "stringOr name defaultValue env =
     Inr (case env name of None \<Rightarrow> defaultValue | Some raw \<Rightarrow> raw)"
  by (simp add: stringOr_def Config_withDefault_def Config_string_unset Config_string_set
      split: option.splits)

theorem stringOr_never_fails_witness:
  "stringOr ''HOST'' ''localhost'' Map.empty = Inr ''localhost'' \<and>
   stringOr ''HOST'' ''localhost'' [''HOST'' \<mapsto> '' Example.org ''] = Inr '' Example.org ''"
  using stringOr_never_fails [of "''HOST''" "''localhost''" Map.empty]
    stringOr_never_fails [of "''HOST''" "''localhost''" "[''HOST'' \<mapsto> '' Example.org '']"]
  by simp



text \<open>
  Claim C10. The claim is that \<^verbatim>\<open>makeEnv(id, {})\<close> gives a composite descriptor that
  always succeeds with the empty record, and that \<^verbatim>\<open>makeEnv\<close> never fails at
  construction time. At the shape without fields the code does otherwise: the call of
  \<^verbatim>\<open>Config.all\<close> throws, \<^verbatim>\<open>makeEnv\<close> throws with it, and no handle and no
  descriptor are built.
\<close>

theorem makeEnv_empty_shape_throws:
  "Config_all ([] :: (string \<times> int unknown config) list) = Inl Thrown \<and>
   isl (makeEnv ''AppEnv'' ([] :: (string \<times> int unknown config) list))"
  by (simp add: makeEnv_def)

end
